theory Spec2Isabelle
  imports Main "HOL-Library.Word"
begin

unbundle bit_operations_syntax

section \<open>The DUPC packet builder (comm_mkdupc.py)\<close>

text \<open>
  A shallow embedding of the packet codec of \<^verbatim>\<open>comm_mkdupc.py\<close>: the header structure
  \<^verbatim>\<open>DJICmdV1Header\<close> with its bit-packed properties, the builder
  \<^verbatim>\<open>encode_command_packet\<close> and the payload resolver \<^verbatim>\<open>get_known_payload\<close>.

  Python integers are \<open>int\<close>; the fields of a ctypes structure are words of the declared
  width, and storing a Python integer into such a field keeps it modulo \<open>2 ^ width\<close>
  (\<open>word_of_int\<close>), as ctypes does. A byte string is a list of 8-bit words.
\<close>

subsection \<open>ctypes field types and structure sizes\<close>

type_synonym c_ubyte = "8 word"
type_synonym c_ushort = "16 word"
type_synonym c_uint = "32 word"
type_synonym bytes = "8 word list"

datatype ctype = C_ubyte | C_ushort | C_uint | C_int | C_float | C_char_array nat

fun ctype_size :: "ctype \<Rightarrow> nat" where
  "ctype_size C_ubyte = 1"
| "ctype_size C_ushort = 2"
| "ctype_size C_uint = 4"
| "ctype_size C_int = 4"
| "ctype_size C_float = 4"
| "ctype_size (C_char_array n) = n"

text \<open>\<^verbatim>\<open>sizeof\<close> of a structure with \<^verbatim>\<open>_pack_ = 1\<close>: the sum of its field sizes.\<close>

definition sizeof :: "(string \<times> ctype) list \<Rightarrow> nat" where
  "sizeof fields = sum_list (map (\<lambda>f. ctype_size (snd f)) fields)"

datatype error = ValueError | BufferOverrun

subsection \<open>Enumerations\<close>

datatype PACKET_TYPE = REQUEST | RESPONSE

fun PACKET_TYPE_value :: "PACKET_TYPE \<Rightarrow> int" where
  "PACKET_TYPE_value REQUEST = 0"
| "PACKET_TYPE_value RESPONSE = 1"

text \<open>The command sets, with the values of the source.\<close>

datatype CMD_SET_TYPE = GENERAL | SPECIAL | CAMERA | FLYCONTROLLER | ZENMUSE | CENTER_BOARD
  | RADIO | WIFI | DM368 | OFDM | VO | SIM | ESC | BATTERY | DATA_RECORDER | RTK | AUTOTEST
  | UNKNOWN17 | UNKNOWN18 | UNKNOWN19 | UNKNOWN20 | UNKNOWN21 | UNKNOWN22 | UNKNOWN23
  | UNKNOWN24 | UNKNOWN25 | UNKNOWN26 | UNKNOWN27 | UNKNOWN28 | UNKNOWN29 | UNKNOWN30
  | UNKNOWN31

fun CMD_SET_TYPE_value :: "CMD_SET_TYPE \<Rightarrow> int" where
  "CMD_SET_TYPE_value GENERAL = 0"
| "CMD_SET_TYPE_value SPECIAL = 1"
| "CMD_SET_TYPE_value CAMERA = 2"
| "CMD_SET_TYPE_value FLYCONTROLLER = 3"
| "CMD_SET_TYPE_value ZENMUSE = 4"
| "CMD_SET_TYPE_value CENTER_BOARD = 5"
| "CMD_SET_TYPE_value RADIO = 6"
| "CMD_SET_TYPE_value WIFI = 7"
| "CMD_SET_TYPE_value DM368 = 8"
| "CMD_SET_TYPE_value OFDM = 9"
| "CMD_SET_TYPE_value VO = 10"
| "CMD_SET_TYPE_value SIM = 11"
| "CMD_SET_TYPE_value ESC = 12"
| "CMD_SET_TYPE_value BATTERY = 13"
| "CMD_SET_TYPE_value DATA_RECORDER = 14"
| "CMD_SET_TYPE_value RTK = 15"
| "CMD_SET_TYPE_value AUTOTEST = 16"
| "CMD_SET_TYPE_value UNKNOWN17 = 17"
| "CMD_SET_TYPE_value UNKNOWN18 = 18"
| "CMD_SET_TYPE_value UNKNOWN19 = 19"
| "CMD_SET_TYPE_value UNKNOWN20 = 20"
| "CMD_SET_TYPE_value UNKNOWN21 = 21"
| "CMD_SET_TYPE_value UNKNOWN22 = 22"
| "CMD_SET_TYPE_value UNKNOWN23 = 23"
| "CMD_SET_TYPE_value UNKNOWN24 = 24"
| "CMD_SET_TYPE_value UNKNOWN25 = 25"
| "CMD_SET_TYPE_value UNKNOWN26 = 26"
| "CMD_SET_TYPE_value UNKNOWN27 = 27"
| "CMD_SET_TYPE_value UNKNOWN28 = 28"
| "CMD_SET_TYPE_value UNKNOWN29 = 29"
| "CMD_SET_TYPE_value UNKNOWN30 = 30"
| "CMD_SET_TYPE_value UNKNOWN31 = 31"

subsection \<open>The packet header\<close>

record DJICmdV1Header =
  sof :: c_ubyte
  ver_length_tag :: c_ushort
  header_crc8 :: c_ubyte
  sender_info :: c_ubyte
  receiver_info :: c_ubyte
  seq_num :: c_ushort
  cmd_type_data :: c_ubyte
  cmd_set :: c_ubyte
  cmd_id :: c_ubyte

definition DJICmdV1Header_fields :: "(string \<times> ctype) list" where
  "DJICmdV1Header_fields =
     [(''sof'', C_ubyte), (''ver_length_tag'', C_ushort), (''header_crc8'', C_ubyte),
      (''sender_info'', C_ubyte), (''receiver_info'', C_ubyte), (''seq_num'', C_ushort),
      (''cmd_type_data'', C_ubyte), (''cmd_set'', C_ubyte), (''cmd_id'', C_ubyte)]"

text \<open>The bit-packed properties: each getter reads the raw field as a Python integer, each
  setter combines Python integers and stores the result back into the field.\<close>

definition get_whole_length :: "DJICmdV1Header \<Rightarrow> int" where
  "get_whole_length h = uint (ver_length_tag h) AND 1023"

definition set_whole_length :: "DJICmdV1Header \<Rightarrow> int \<Rightarrow> DJICmdV1Header" where
  "set_whole_length h v =
     h\<lparr>ver_length_tag := word_of_int ((uint (ver_length_tag h) AND 64512) OR (v AND 1023))\<rparr>"

definition get_version :: "DJICmdV1Header \<Rightarrow> int" where
  "get_version h = drop_bit 10 (uint (ver_length_tag h) AND 64512)"

definition set_version :: "DJICmdV1Header \<Rightarrow> int \<Rightarrow> DJICmdV1Header" where
  "set_version h v =
     h\<lparr>ver_length_tag := word_of_int ((uint (ver_length_tag h) AND 1023) OR push_bit 10 (v AND 63))\<rparr>"

definition get_sender_type :: "DJICmdV1Header \<Rightarrow> int" where
  "get_sender_type h = uint (sender_info h) AND 31"

definition set_sender_type :: "DJICmdV1Header \<Rightarrow> int \<Rightarrow> DJICmdV1Header" where
  "set_sender_type h v =
     h\<lparr>sender_info := word_of_int ((uint (sender_info h) AND 224) OR (v AND 31))\<rparr>"

definition get_sender_index :: "DJICmdV1Header \<Rightarrow> int" where
  "get_sender_index h = drop_bit 5 (uint (sender_info h) AND 224)"

definition set_sender_index :: "DJICmdV1Header \<Rightarrow> int \<Rightarrow> DJICmdV1Header" where
  "set_sender_index h v =
     h\<lparr>sender_info := word_of_int ((uint (sender_info h) AND 31) OR push_bit 5 (v AND 7))\<rparr>"

definition get_receiver_type :: "DJICmdV1Header \<Rightarrow> int" where
  "get_receiver_type h = uint (receiver_info h) AND 31"

definition set_receiver_type :: "DJICmdV1Header \<Rightarrow> int \<Rightarrow> DJICmdV1Header" where
  "set_receiver_type h v =
     h\<lparr>receiver_info := word_of_int ((uint (receiver_info h) AND 224) OR (v AND 31))\<rparr>"

definition get_receiver_index :: "DJICmdV1Header \<Rightarrow> int" where
  "get_receiver_index h = drop_bit 5 (uint (receiver_info h) AND 224)"

definition set_receiver_index :: "DJICmdV1Header \<Rightarrow> int \<Rightarrow> DJICmdV1Header" where
  "set_receiver_index h v =
     h\<lparr>receiver_info := word_of_int ((uint (receiver_info h) AND 31) OR push_bit 5 (v AND 7))\<rparr>"

definition get_packet_type :: "DJICmdV1Header \<Rightarrow> int" where
  "get_packet_type h = drop_bit 7 (uint (cmd_type_data h))"

definition set_packet_type :: "DJICmdV1Header \<Rightarrow> int \<Rightarrow> DJICmdV1Header" where
  "set_packet_type h v =
     h\<lparr>cmd_type_data := word_of_int ((uint (cmd_type_data h) AND 127) OR push_bit 7 (v AND 1))\<rparr>"

definition get_ack_type :: "DJICmdV1Header \<Rightarrow> int" where
  "get_ack_type h = drop_bit 5 (uint (cmd_type_data h)) AND 3"

definition set_ack_type :: "DJICmdV1Header \<Rightarrow> int \<Rightarrow> DJICmdV1Header" where
  "set_ack_type h v =
     h\<lparr>cmd_type_data := word_of_int ((uint (cmd_type_data h) AND 159) OR push_bit 5 (v AND 3))\<rparr>"

definition get_encrypt_type :: "DJICmdV1Header \<Rightarrow> int" where
  "get_encrypt_type h = uint (cmd_type_data h) AND 7"

definition set_encrypt_type :: "DJICmdV1Header \<Rightarrow> int \<Rightarrow> DJICmdV1Header" where
  "set_encrypt_type h v =
     h\<lparr>cmd_type_data := word_of_int ((uint (cmd_type_data h) AND 248) OR (v AND 7))\<rparr>"

text \<open>Plain fields: assignment of a Python integer truncates to the field width.\<close>

definition set_seq_num :: "DJICmdV1Header \<Rightarrow> int \<Rightarrow> DJICmdV1Header" where
  "set_seq_num h v = h\<lparr>seq_num := word_of_int v\<rparr>"

definition set_cmd_set :: "DJICmdV1Header \<Rightarrow> int \<Rightarrow> DJICmdV1Header" where
  "set_cmd_set h v = h\<lparr>cmd_set := word_of_int v\<rparr>"

definition set_cmd_id :: "DJICmdV1Header \<Rightarrow> int \<Rightarrow> DJICmdV1Header" where
  "set_cmd_id h v = h\<lparr>cmd_id := word_of_int v\<rparr>"

text \<open>A fresh ctypes structure is zero-filled; \<^verbatim>\<open>__init__\<close> then sets the start marker, the
  version and the length of an empty packet.\<close>

definition DJICmdV1Header_zero :: DJICmdV1Header where
  "DJICmdV1Header_zero =
     \<lparr>sof = 0, ver_length_tag = 0, header_crc8 = 0, sender_info = 0, receiver_info = 0,
      seq_num = 0, cmd_type_data = 0, cmd_set = 0, cmd_id = 0\<rparr>"

definition DJICmdV1Header_init :: DJICmdV1Header where
  "DJICmdV1Header_init =
     (let self = DJICmdV1Header_zero\<lparr>sof := 0x55\<rparr>;
          self = set_version self 1
      in set_whole_length self (int (sizeof DJICmdV1Header_fields) + 2))"

text \<open>The structure's memory: little-endian, packed, in field order.\<close>

definition le16_bytes :: "c_ushort \<Rightarrow> bytes" where
  "le16_bytes w = [ucast w, ucast (drop_bit 8 w)]"

definition le16 :: "bytes \<Rightarrow> nat \<Rightarrow> c_ushort" where
  "le16 bs off = ucast (bs ! off) OR push_bit 8 (ucast (bs ! (off + 1)))"

definition le32 :: "bytes \<Rightarrow> nat \<Rightarrow> c_uint" where
  "le32 bs off = ucast (bs ! off) OR push_bit 8 (ucast (bs ! (off + 1)))
     OR push_bit 16 (ucast (bs ! (off + 2))) OR push_bit 24 (ucast (bs ! (off + 3)))"

definition DJICmdV1Header_bytes :: "DJICmdV1Header \<Rightarrow> bytes" where
  "DJICmdV1Header_bytes h =
     [sof h] @ le16_bytes (ver_length_tag h) @ [header_crc8 h, sender_info h, receiver_info h]
     @ le16_bytes (seq_num h) @ [cmd_type_data h, cmd_set h, cmd_id h]"

text \<open>\<^verbatim>\<open>DJICmdV1Header.from_buffer_copy\<close>: raises \<^verbatim>\<open>ValueError\<close> when the source is shorter
  than the structure, ignores what lies beyond it.\<close>

definition DJICmdV1Header_from_buffer_copy :: "bytes \<Rightarrow> error + DJICmdV1Header" where
  "DJICmdV1Header_from_buffer_copy source =
     (if length source < sizeof DJICmdV1Header_fields then Inl ValueError
      else Inr \<lparr>sof = source ! 0, ver_length_tag = le16 source 1, header_crc8 = source ! 3,
                sender_info = source ! 4, receiver_info = source ! 5, seq_num = le16 source 6,
                cmd_type_data = source ! 8, cmd_set = source ! 9, cmd_id = source ! 10\<rparr>)"

subsection \<open>Header fields as a whole\<close>

text \<open>The semantic fields of a header, as the Python integers a caller supplies to the
  property setters and reads back from the getters.\<close>

record HeaderFields =
  fld_version :: int
  fld_whole_length :: int
  fld_sender_type :: int
  fld_sender_index :: int
  fld_receiver_type :: int
  fld_receiver_index :: int
  fld_seq_num :: int
  fld_packet_type :: int
  fld_ack_type :: int
  fld_encrypt_type :: int
  fld_cmd_set :: int
  fld_cmd_id :: int

text \<open>Encoding a header: construct the structure, assign every property, take its bytes.\<close>

definition set_all_fields :: "DJICmdV1Header \<Rightarrow> HeaderFields \<Rightarrow> DJICmdV1Header" where
  "set_all_fields h f =
     (let h = set_version h (fld_version f);
          h = set_whole_length h (fld_whole_length f);
          h = set_sender_type h (fld_sender_type f);
          h = set_sender_index h (fld_sender_index f);
          h = set_receiver_type h (fld_receiver_type f);
          h = set_receiver_index h (fld_receiver_index f);
          h = set_seq_num h (fld_seq_num f);
          h = set_packet_type h (fld_packet_type f);
          h = set_ack_type h (fld_ack_type f);
          h = set_encrypt_type h (fld_encrypt_type f);
          h = set_cmd_set h (fld_cmd_set f)
      in set_cmd_id h (fld_cmd_id f))"

definition get_all_fields :: "DJICmdV1Header \<Rightarrow> HeaderFields" where
  "get_all_fields h =
     \<lparr>fld_version = get_version h, fld_whole_length = get_whole_length h,
      fld_sender_type = get_sender_type h, fld_sender_index = get_sender_index h,
      fld_receiver_type = get_receiver_type h, fld_receiver_index = get_receiver_index h,
      fld_seq_num = uint (seq_num h), fld_packet_type = get_packet_type h,
      fld_ack_type = get_ack_type h, fld_encrypt_type = get_encrypt_type h,
      fld_cmd_set = uint (cmd_set h), fld_cmd_id = uint (cmd_id h)\<rparr>"

definition header_encode :: "HeaderFields \<Rightarrow> bytes" where
  "header_encode f = DJICmdV1Header_bytes (set_all_fields DJICmdV1Header_init f)"

definition header_decode :: "bytes \<Rightarrow> error + HeaderFields" where
  "header_decode bs =
     (case DJICmdV1Header_from_buffer_copy bs of
        Inl e \<Rightarrow> Inl e
      | Inr h \<Rightarrow> Inr (get_all_fields h))"

text \<open>The declared bit widths, and each field reduced to its width.\<close>

definition fields_in_range :: "HeaderFields \<Rightarrow> bool" where
  "fields_in_range f \<longleftrightarrow>
     0 \<le> fld_version f \<and> fld_version f < 2 ^ 6 \<and>
     0 \<le> fld_whole_length f \<and> fld_whole_length f < 2 ^ 10 \<and>
     0 \<le> fld_sender_type f \<and> fld_sender_type f < 2 ^ 5 \<and>
     0 \<le> fld_sender_index f \<and> fld_sender_index f < 2 ^ 3 \<and>
     0 \<le> fld_receiver_type f \<and> fld_receiver_type f < 2 ^ 5 \<and>
     0 \<le> fld_receiver_index f \<and> fld_receiver_index f < 2 ^ 3 \<and>
     0 \<le> fld_seq_num f \<and> fld_seq_num f < 2 ^ 16 \<and>
     0 \<le> fld_packet_type f \<and> fld_packet_type f < 2 \<and>
     0 \<le> fld_ack_type f \<and> fld_ack_type f < 2 ^ 2 \<and>
     0 \<le> fld_encrypt_type f \<and> fld_encrypt_type f < 2 ^ 3 \<and>
     0 \<le> fld_cmd_set f \<and> fld_cmd_set f < 2 ^ 8 \<and>
     0 \<le> fld_cmd_id f \<and> fld_cmd_id f < 2 ^ 8"

definition fields_truncated :: "HeaderFields \<Rightarrow> HeaderFields" where
  "fields_truncated f =
     \<lparr>fld_version = fld_version f mod 2 ^ 6, fld_whole_length = fld_whole_length f mod 2 ^ 10,
      fld_sender_type = fld_sender_type f mod 2 ^ 5, fld_sender_index = fld_sender_index f mod 2 ^ 3,
      fld_receiver_type = fld_receiver_type f mod 2 ^ 5,
      fld_receiver_index = fld_receiver_index f mod 2 ^ 3,
      fld_seq_num = fld_seq_num f mod 2 ^ 16, fld_packet_type = fld_packet_type f mod 2,
      fld_ack_type = fld_ack_type f mod 2 ^ 2, fld_encrypt_type = fld_encrypt_type f mod 2 ^ 3,
      fld_cmd_set = fld_cmd_set f mod 2 ^ 8, fld_cmd_id = fld_cmd_id f mod 2 ^ 8\<rparr>"

subsection \<open>The packet builder\<close>

text \<open>
  \<^verbatim>\<open>memmove(addressof(dst) + off, byref(src), sizeof(src))\<close> into a ctypes array: the bytes of
  \<open>src\<close> replace those of \<open>dst\<close> from \<open>off\<close> on. A copy that does not fit writes beyond the
  array, which has no defined result; the model makes it the value \<open>BufferOverrun\<close>.
\<close>

definition memmove :: "bytes \<Rightarrow> nat \<Rightarrow> bytes \<Rightarrow> error + bytes" where
  "memmove dst off src =
     (if off + length src \<le> length dst
      then Inr (take off dst @ src @ drop (off + length src) dst)
      else Inl BufferOverrun)"

text \<open>
  Modelled from the spec: the two checksum functions
  \<^verbatim>\<open>calc_pkt55_hdr_checksum(seed, packet, plength)\<close> and
  \<^verbatim>\<open>calc_pkt55_checksum(packet, plength)\<close> are imported from the module
  \<^verbatim>\<open>comm_dat2pcap\<close>, which is not among the sources. They are parameters of the builder,
  with the interface the specification gives them (section 6): pure functions, the first
  returning a byte, the second a 16-bit value.
\<close>

type_synonym checksum8 = "int \<Rightarrow> bytes \<Rightarrow> int \<Rightarrow> c_ubyte"
type_synonym checksum16 = "bytes \<Rightarrow> int \<Rightarrow> c_ushort"

definition encode_command_packet ::
  "checksum8 \<Rightarrow> checksum16 \<Rightarrow> int \<Rightarrow> int \<Rightarrow> int \<Rightarrow> int \<Rightarrow> int \<Rightarrow> int \<Rightarrow> int \<Rightarrow> int \<Rightarrow> int \<Rightarrow> int
     \<Rightarrow> bytes \<Rightarrow> error + bytes" where
  "encode_command_packet calc_pkt55_hdr_checksum calc_pkt55_checksum
       sender_type sender_index receiver_type receiver_index seq_num' pack_type ack_type
       encrypt_type cmd_set' cmd_id' payload =
     (let pkthead = DJICmdV1Header_init;
          pkthead = set_whole_length pkthead
                      (int (sizeof DJICmdV1Header_fields) + int (length payload) + 2);
          pkthead = pkthead\<lparr>header_crc8 :=
                      calc_pkt55_hdr_checksum 0x77 (take 3 (DJICmdV1Header_bytes pkthead)) 3\<rparr>;
          pkthead = set_sender_type pkthead sender_type;
          pkthead = set_sender_index pkthead sender_index;
          pkthead = set_receiver_type pkthead receiver_type;
          pkthead = set_receiver_index pkthead receiver_index;
          pkthead = set_seq_num pkthead seq_num';
          pkthead = set_packet_type pkthead pack_type;
          pkthead = set_ack_type pkthead ack_type;
          pkthead = set_encrypt_type pkthead encrypt_type;
          pkthead = set_cmd_set pkthead cmd_set';
          pkthead = set_cmd_id pkthead cmd_id';
          enc_data = replicate (nat (get_whole_length pkthead)) (0 :: c_ubyte)
      in case memmove enc_data 0 (DJICmdV1Header_bytes pkthead) of
           Inl e \<Rightarrow> Inl e
         | Inr enc_data \<Rightarrow>
             (case memmove enc_data (sizeof DJICmdV1Header_fields) payload of
                Inl e \<Rightarrow> Inl e
              | Inr enc_data \<Rightarrow>
                  (let crc16 = calc_pkt55_checksum enc_data (int (length enc_data) - 2)
                   in memmove enc_data (sizeof DJICmdV1Header_fields + length payload)
                        (le16_bytes crc16))))"

subsection \<open>Payload structures\<close>

text \<open>A \<^verbatim>\<open>c_float\<close> field is kept as its 32-bit IEEE-754 pattern; a \<^verbatim>\<open>c_int\<close> field reads as
  the two's-complement value of its 32 bits, a \<^verbatim>\<open>c_uint\<close> field as the unsigned one. A
  \<^verbatim>\<open>c_char\<close> array field is kept as the bytes the structure holds.\<close>

datatype c_float = C_float_bits c_uint

definition DJIPayload_FlyController_ParamMaxLen :: nat where
  "DJIPayload_FlyController_ParamMaxLen = 160"

definition DJIPayload_General_VersionInquiryRe_fields :: "(string \<times> ctype) list" where
  "DJIPayload_General_VersionInquiryRe_fields =
     [(''unknown0'', C_ubyte), (''unknown1'', C_ubyte), (''hw_version'', C_char_array 16),
      (''ldr_version'', C_uint), (''app_version'', C_uint), (''unknown1A'', C_uint),
      (''unknown1E'', C_ubyte)]"

definition DJIPayload_General_ChipRebootRe_fields :: "(string \<times> ctype) list" where
  "DJIPayload_General_ChipRebootRe_fields = [(''status'', C_ubyte)]"

definition DJIPayload_FlyController_GetParamDefinition2015Rq_fields :: "(string \<times> ctype) list" where
  "DJIPayload_FlyController_GetParamDefinition2015Rq_fields = [(''param_index'', C_ushort)]"

definition DJIPayload_FlyController_GetParamDefinitionEOL2015Re_fields :: "(string \<times> ctype) list" where
  "DJIPayload_FlyController_GetParamDefinitionEOL2015Re_fields = [(''status'', C_ubyte)]"

definition DJIPayload_FlyController_GetParamDefinitionU2015Re_fields :: "(string \<times> ctype) list" where
  "DJIPayload_FlyController_GetParamDefinitionU2015Re_fields =
     [(''status'', C_ubyte), (''type_id'', C_ushort), (''size'', C_ushort),
      (''attribute'', C_ushort), (''limit_min'', C_uint), (''limit_max'', C_uint),
      (''limit_def'', C_uint), (''name'', C_char_array DJIPayload_FlyController_ParamMaxLen)]"

definition DJIPayload_FlyController_GetParamDefinitionI2015Re_fields :: "(string \<times> ctype) list" where
  "DJIPayload_FlyController_GetParamDefinitionI2015Re_fields =
     [(''status'', C_ubyte), (''type_id'', C_ushort), (''size'', C_ushort),
      (''attribute'', C_ushort), (''limit_min'', C_int), (''limit_max'', C_int),
      (''limit_def'', C_int), (''name'', C_char_array DJIPayload_FlyController_ParamMaxLen)]"

definition DJIPayload_FlyController_GetParamDefinitionF2015Re_fields :: "(string \<times> ctype) list" where
  "DJIPayload_FlyController_GetParamDefinitionF2015Re_fields =
     [(''status'', C_ubyte), (''type_id'', C_ushort), (''size'', C_ushort),
      (''attribute'', C_ushort), (''limit_min'', C_float), (''limit_max'', C_float),
      (''limit_def'', C_float), (''name'', C_char_array DJIPayload_FlyController_ParamMaxLen)]"

text \<open>The structures the resolver can return, each with its fields in declaration order.\<close>

datatype DJIPayload =
    DJIPayload_General_VersionInquiryRe c_ubyte c_ubyte bytes c_uint c_uint c_uint c_ubyte
  | DJIPayload_General_ChipRebootRe c_ubyte
  | DJIPayload_FlyController_GetParamDefinition2015Rq c_ushort
  | DJIPayload_FlyController_GetParamDefinitionEOL2015Re c_ubyte
  | DJIPayload_FlyController_GetParamDefinitionU2015Re
      c_ubyte (type_id: c_ushort) c_ushort c_ushort c_uint c_uint c_uint bytes
  | DJIPayload_FlyController_GetParamDefinitionI2015Re
      c_ubyte c_ushort c_ushort c_ushort int int int bytes
  | DJIPayload_FlyController_GetParamDefinitionF2015Re
      c_ubyte c_ushort c_ushort c_ushort c_float c_float c_float bytes

text \<open>The declared size of the structure a record is an instance of.\<close>

fun payload_sizeof :: "DJIPayload \<Rightarrow> nat" where
  "payload_sizeof (DJIPayload_General_VersionInquiryRe _ _ _ _ _ _ _) =
     sizeof DJIPayload_General_VersionInquiryRe_fields"
| "payload_sizeof (DJIPayload_General_ChipRebootRe _) =
     sizeof DJIPayload_General_ChipRebootRe_fields"
| "payload_sizeof (DJIPayload_FlyController_GetParamDefinition2015Rq _) =
     sizeof DJIPayload_FlyController_GetParamDefinition2015Rq_fields"
| "payload_sizeof (DJIPayload_FlyController_GetParamDefinitionEOL2015Re _) =
     sizeof DJIPayload_FlyController_GetParamDefinitionEOL2015Re_fields"
| "payload_sizeof (DJIPayload_FlyController_GetParamDefinitionU2015Re _ _ _ _ _ _ _ _) =
     sizeof DJIPayload_FlyController_GetParamDefinitionU2015Re_fields"
| "payload_sizeof (DJIPayload_FlyController_GetParamDefinitionI2015Re _ _ _ _ _ _ _ _) =
     sizeof DJIPayload_FlyController_GetParamDefinitionI2015Re_fields"
| "payload_sizeof (DJIPayload_FlyController_GetParamDefinitionF2015Re _ _ _ _ _ _ _ _) =
     sizeof DJIPayload_FlyController_GetParamDefinitionF2015Re_fields"

text \<open>\<^verbatim>\<open>from_buffer_copy\<close> of each structure: \<^verbatim>\<open>ValueError\<close> on a source shorter than the
  structure; otherwise the fields are read at their offsets and the rest is ignored.\<close>

definition VersionInquiryRe_from_buffer_copy :: "bytes \<Rightarrow> error + DJIPayload" where
  "VersionInquiryRe_from_buffer_copy source =
     (if length source < sizeof DJIPayload_General_VersionInquiryRe_fields then Inl ValueError
      else Inr (DJIPayload_General_VersionInquiryRe (source ! 0) (source ! 1)
                  (take 16 (drop 2 source)) (le32 source 18) (le32 source 22) (le32 source 26)
                  (source ! 30)))"

definition ChipRebootRe_from_buffer_copy :: "bytes \<Rightarrow> error + DJIPayload" where
  "ChipRebootRe_from_buffer_copy source =
     (if length source < sizeof DJIPayload_General_ChipRebootRe_fields then Inl ValueError
      else Inr (DJIPayload_General_ChipRebootRe (source ! 0)))"

definition GetParamDefinition2015Rq_from_buffer_copy :: "bytes \<Rightarrow> error + DJIPayload" where
  "GetParamDefinition2015Rq_from_buffer_copy source =
     (if length source < sizeof DJIPayload_FlyController_GetParamDefinition2015Rq_fields
      then Inl ValueError
      else Inr (DJIPayload_FlyController_GetParamDefinition2015Rq (le16 source 0)))"

definition GetParamDefinitionEOL2015Re_from_buffer_copy :: "bytes \<Rightarrow> error + DJIPayload" where
  "GetParamDefinitionEOL2015Re_from_buffer_copy source =
     (if length source < sizeof DJIPayload_FlyController_GetParamDefinitionEOL2015Re_fields
      then Inl ValueError
      else Inr (DJIPayload_FlyController_GetParamDefinitionEOL2015Re (source ! 0)))"

definition GetParamDefinitionU2015Re_from_buffer_copy :: "bytes \<Rightarrow> error + DJIPayload" where
  "GetParamDefinitionU2015Re_from_buffer_copy source =
     (if length source < sizeof DJIPayload_FlyController_GetParamDefinitionU2015Re_fields
      then Inl ValueError
      else Inr (DJIPayload_FlyController_GetParamDefinitionU2015Re (source ! 0) (le16 source 1)
                  (le16 source 3) (le16 source 5) (le32 source 7) (le32 source 11)
                  (le32 source 15) (take DJIPayload_FlyController_ParamMaxLen (drop 19 source))))"

definition GetParamDefinitionI2015Re_from_buffer_copy :: "bytes \<Rightarrow> error + DJIPayload" where
  "GetParamDefinitionI2015Re_from_buffer_copy source =
     (if length source < sizeof DJIPayload_FlyController_GetParamDefinitionI2015Re_fields
      then Inl ValueError
      else Inr (DJIPayload_FlyController_GetParamDefinitionI2015Re (source ! 0) (le16 source 1)
                  (le16 source 3) (le16 source 5) (sint (le32 source 7)) (sint (le32 source 11))
                  (sint (le32 source 15))
                  (take DJIPayload_FlyController_ParamMaxLen (drop 19 source))))"

definition GetParamDefinitionF2015Re_from_buffer_copy :: "bytes \<Rightarrow> error + DJIPayload" where
  "GetParamDefinitionF2015Re_from_buffer_copy source =
     (if length source < sizeof DJIPayload_FlyController_GetParamDefinitionF2015Re_fields
      then Inl ValueError
      else Inr (DJIPayload_FlyController_GetParamDefinitionF2015Re (source ! 0) (le16 source 1)
                  (le16 source 3) (le16 source 5) (C_float_bits (le32 source 7))
                  (C_float_bits (le32 source 11)) (C_float_bits (le32 source 15))
                  (take DJIPayload_FlyController_ParamMaxLen (drop 19 source))))"

text \<open>\<^verbatim>\<open>bytes.ljust(width, fill)\<close>: pads on the right up to \<open>width\<close>; a longer string is returned
  unchanged.\<close>

definition ljust :: "bytes \<Rightarrow> nat \<Rightarrow> c_ubyte \<Rightarrow> bytes" where
  "ljust bs width fill = bs @ replicate (width - length bs) fill"

subsection \<open>The payload resolver\<close>

text \<open>The result is \<open>Inr (Some r)\<close> for a returned structure, \<open>Inr None\<close> for Python's
  \<^verbatim>\<open>None\<close>, and \<open>Inl e\<close> were an exception to leave the function.\<close>

definition returning :: "error + DJIPayload \<Rightarrow> error + DJIPayload option" where
  "returning r = (case r of Inl e \<Rightarrow> Inl e | Inr v \<Rightarrow> Inr (Some v))"

definition get_known_payload :: "DJICmdV1Header \<Rightarrow> bytes \<Rightarrow> error + DJIPayload option" where
  "get_known_payload pkthead payload =
     (if uint (cmd_set pkthead) = CMD_SET_TYPE_value GENERAL \<and> get_packet_type pkthead = 1
         \<and> uint (cmd_id pkthead) = 0x01
         \<and> length payload \<ge> sizeof DJIPayload_General_VersionInquiryRe_fields
      then returning (VersionInquiryRe_from_buffer_copy payload)
      else if uint (cmd_set pkthead) = CMD_SET_TYPE_value GENERAL \<and> get_packet_type pkthead = 1
         \<and> uint (cmd_id pkthead) = 0x0b
         \<and> length payload \<ge> sizeof DJIPayload_General_ChipRebootRe_fields
      then returning (ChipRebootRe_from_buffer_copy payload)
      else if uint (cmd_set pkthead) = CMD_SET_TYPE_value FLYCONTROLLER
         \<and> get_packet_type pkthead = 0 \<and> uint (cmd_id pkthead) = 0xf0
         \<and> length payload \<ge> sizeof DJIPayload_FlyController_GetParamDefinition2015Rq_fields
      then returning (GetParamDefinition2015Rq_from_buffer_copy payload)
      else if uint (cmd_set pkthead) = CMD_SET_TYPE_value FLYCONTROLLER
         \<and> get_packet_type pkthead = 1 \<and> uint (cmd_id pkthead) = 0xf0
      then
        (if int (length payload) \<ge>
              int (sizeof DJIPayload_FlyController_GetParamDefinitionU2015Re_fields)
                - int DJIPayload_FlyController_ParamMaxLen + 1
         then
           (case GetParamDefinitionU2015Re_from_buffer_copy
                   (ljust payload (sizeof DJIPayload_FlyController_GetParamDefinitionU2015Re_fields) 0) of
              Inl e \<Rightarrow> Inl e
            | Inr out_payload \<Rightarrow>
                if uint (type_id out_payload) \<ge> 4 \<and> uint (type_id out_payload) \<le> 7
                then returning (GetParamDefinitionI2015Re_from_buffer_copy
                       (ljust payload (sizeof DJIPayload_FlyController_GetParamDefinitionI2015Re_fields) 0))
                else if uint (type_id out_payload) = 8 \<or> uint (type_id out_payload) = 9
                then returning (GetParamDefinitionF2015Re_from_buffer_copy
                       (ljust payload (sizeof DJIPayload_FlyController_GetParamDefinitionF2015Re_fields) 0))
                else Inr (Some out_payload))
         else if length payload \<ge> sizeof DJIPayload_FlyController_GetParamDefinitionEOL2015Re_fields
         then returning (GetParamDefinitionEOL2015Re_from_buffer_copy payload)
         else Inr None)
      else Inr None)"

text \<open>The routing keys for which the resolver has an entry.\<close>

definition known_routing_key :: "DJICmdV1Header \<Rightarrow> bool" where
  "known_routing_key h \<longleftrightarrow>
     (uint (cmd_set h), get_packet_type h, uint (cmd_id h)) \<in>
       {(CMD_SET_TYPE_value GENERAL, PACKET_TYPE_value RESPONSE, 0x01),
        (CMD_SET_TYPE_value GENERAL, PACKET_TYPE_value RESPONSE, 0x0b),
        (CMD_SET_TYPE_value FLYCONTROLLER, PACKET_TYPE_value REQUEST, 0xf0),
        (CMD_SET_TYPE_value FLYCONTROLLER, PACKET_TYPE_value RESPONSE, 0xf0)}"

text \<open>Stand-ins for the two checksum functions, used only to evaluate the builder on
  concrete inputs: an exclusive-or and a sum over the first \<open>plength\<close> bytes.\<close>

definition xor_checksum8 :: checksum8 where
  "xor_checksum8 seed packet plength =
     fold (\<lambda>b c. c XOR b) (take (nat plength) packet) (word_of_int seed)"

definition sum_checksum16 :: checksum16 where
  "sum_checksum16 packet plength =
     fold (\<lambda>b c. c + ucast b) (take (nat plength) packet) 0"

text \<open>A checksum function in the sense of the interface reads only the first \<open>plength\<close>
  bytes of the buffer it is given.\<close>

definition reads_prefix_only :: "checksum16 \<Rightarrow> bool" where
  "reads_prefix_only f \<longleftrightarrow>
     (\<forall>bs bs' n. take (nat n) bs = take (nat n) bs' \<longrightarrow> f bs n = f bs' n)"

subsection \<open>Auxiliary notions used in the statements\<close>

text \<open>The header structure as it stands when the builder copies it into the buffer: the
  same sequence of assignments as in \<open>encode_command_packet\<close>, for a payload of the given
  length.\<close>

definition built_header ::
  "checksum8 \<Rightarrow> int \<Rightarrow> int \<Rightarrow> int \<Rightarrow> int \<Rightarrow> int \<Rightarrow> int \<Rightarrow> int \<Rightarrow> int \<Rightarrow> int \<Rightarrow> int
     \<Rightarrow> nat \<Rightarrow> DJICmdV1Header" where
  "built_header calc_pkt55_hdr_checksum sender_type sender_index receiver_type receiver_index
       seq_num' pack_type ack_type encrypt_type cmd_set' cmd_id' payload_len =
     (let pkthead = DJICmdV1Header_init;
          pkthead = set_whole_length pkthead
                      (int (sizeof DJICmdV1Header_fields) + int payload_len + 2);
          pkthead = pkthead\<lparr>header_crc8 :=
                      calc_pkt55_hdr_checksum 0x77 (take 3 (DJICmdV1Header_bytes pkthead)) 3\<rparr>;
          pkthead = set_sender_type pkthead sender_type;
          pkthead = set_sender_index pkthead sender_index;
          pkthead = set_receiver_type pkthead receiver_type;
          pkthead = set_receiver_index pkthead receiver_index;
          pkthead = set_seq_num pkthead seq_num';
          pkthead = set_packet_type pkthead pack_type;
          pkthead = set_ack_type pkthead ack_type;
          pkthead = set_encrypt_type pkthead encrypt_type;
          pkthead = set_cmd_set pkthead cmd_set'
      in set_cmd_id pkthead cmd_id')"

text \<open>The total length a packet carries: the low 10 bits of the 16-bit word at offset 1.\<close>

definition packed_total_length :: "bytes \<Rightarrow> int" where
  "packed_total_length buf = uint (le16 buf 1) AND 1023"

text \<open>The length invariant for a header of \<open>header_size\<close> bytes: the build returns a buffer
  whose packed length is header, payload and footer together, and which is that long.\<close>

definition length_invariant ::
  "nat \<Rightarrow> checksum8 \<Rightarrow> checksum16 \<Rightarrow> int \<Rightarrow> int \<Rightarrow> int \<Rightarrow> int \<Rightarrow> int \<Rightarrow> int \<Rightarrow> int \<Rightarrow> int \<Rightarrow> int
     \<Rightarrow> int \<Rightarrow> bytes \<Rightarrow> bool" where
  "length_invariant header_size c8 c16 st si rt ri sn pt at et cs ci payload =
     (case encode_command_packet c8 c16 st si rt ri sn pt at et cs ci payload of
        Inl e \<Rightarrow> False
      | Inr buf \<Rightarrow>
          packed_total_length buf = int header_size + int (length payload) + 2 \<and>
          int (length buf) = packed_total_length buf)"

text \<open>A header carrying a given routing key, made with the property setters.\<close>

definition header_for_key :: "int \<Rightarrow> int \<Rightarrow> int \<Rightarrow> DJICmdV1Header" where
  "header_for_key cs pt ci =
     set_cmd_id (set_cmd_set (set_packet_type DJICmdV1Header_init pt) cs) ci"

text \<open>The payload right-padded with zero bytes to the full record size of 179 bytes.\<close>

definition zero_padded :: "bytes \<Rightarrow> bytes" where
  "zero_padded payload = payload @ replicate (179 - length payload) 0"

text \<open>The least payload length the resolver accepts for a routing key it knows.\<close>

definition shortest_variant :: "DJICmdV1Header \<Rightarrow> nat" where
  "shortest_variant h =
     (let key = (uint (cmd_set h), get_packet_type h, uint (cmd_id h))
      in if key = (CMD_SET_TYPE_value GENERAL, PACKET_TYPE_value RESPONSE, 0x01)
         then sizeof DJIPayload_General_VersionInquiryRe_fields
         else if key = (CMD_SET_TYPE_value GENERAL, PACKET_TYPE_value RESPONSE, 0x0b)
         then sizeof DJIPayload_General_ChipRebootRe_fields
         else if key = (CMD_SET_TYPE_value FLYCONTROLLER, PACKET_TYPE_value REQUEST, 0xf0)
         then sizeof DJIPayload_FlyController_GetParamDefinition2015Rq_fields
         else if key = (CMD_SET_TYPE_value FLYCONTROLLER, PACKET_TYPE_value RESPONSE, 0xf0)
         then sizeof DJIPayload_FlyController_GetParamDefinitionEOL2015Re_fields
         else 0)"

text \<open>The packets the builder gives, with the stand-in checksums, for the payload
  \<open>[1, 2]\<close> under two different routings.\<close>

definition example_packet :: bytes where
  "example_packet =
     [0x55, 0x0F, 0x04, 0x29, 0x2A, 0x23, 0x34, 0x12, 0x40, 0x03, 0xF0, 1, 2, 0x5A, 0x02]"

definition example_packet_other_routing :: bytes where
  "example_packet_other_routing =
     [0x55, 0x0F, 0x04, 0x29, 0x02, 0x24, 0x07, 0x00, 0x80, 0x00, 0x01, 1, 2, 0x42, 0x01]"

section \<open>Properties\<close>

subsection \<open>Sizes\<close>

lemma sizeof_DJICmdV1Header: "sizeof DJICmdV1Header_fields = 11"
  by (simp add: sizeof_def DJICmdV1Header_fields_def)

lemma sizeof_VersionInquiryRe: "sizeof DJIPayload_General_VersionInquiryRe_fields = 31"
  by (simp add: sizeof_def DJIPayload_General_VersionInquiryRe_fields_def)

lemma sizeof_ChipRebootRe: "sizeof DJIPayload_General_ChipRebootRe_fields = 1"
  by (simp add: sizeof_def DJIPayload_General_ChipRebootRe_fields_def)

lemma sizeof_GetParamDefinition2015Rq:
  "sizeof DJIPayload_FlyController_GetParamDefinition2015Rq_fields = 2"
  by (simp add: sizeof_def DJIPayload_FlyController_GetParamDefinition2015Rq_fields_def)

lemma sizeof_GetParamDefinitionEOL2015Re:
  "sizeof DJIPayload_FlyController_GetParamDefinitionEOL2015Re_fields = 1"
  by (simp add: sizeof_def DJIPayload_FlyController_GetParamDefinitionEOL2015Re_fields_def)

lemma sizeof_GetParamDefinitionU2015Re:
  "sizeof DJIPayload_FlyController_GetParamDefinitionU2015Re_fields = 179"
  by (simp add: sizeof_def DJIPayload_FlyController_GetParamDefinitionU2015Re_fields_def
      DJIPayload_FlyController_ParamMaxLen_def)

lemma sizeof_GetParamDefinitionI2015Re:
  "sizeof DJIPayload_FlyController_GetParamDefinitionI2015Re_fields = 179"
  by (simp add: sizeof_def DJIPayload_FlyController_GetParamDefinitionI2015Re_fields_def
      DJIPayload_FlyController_ParamMaxLen_def)

lemma sizeof_GetParamDefinitionF2015Re:
  "sizeof DJIPayload_FlyController_GetParamDefinitionF2015Re_fields = 179"
  by (simp add: sizeof_def DJIPayload_FlyController_GetParamDefinitionF2015Re_fields_def
      DJIPayload_FlyController_ParamMaxLen_def)

lemmas payload_sizes = sizeof_VersionInquiryRe sizeof_ChipRebootRe sizeof_GetParamDefinition2015Rq
  sizeof_GetParamDefinitionEOL2015Re sizeof_GetParamDefinitionU2015Re
  sizeof_GetParamDefinitionI2015Re sizeof_GetParamDefinitionF2015Re
  DJIPayload_FlyController_ParamMaxLen_def

lemmas from_buffer_copy_defs = VersionInquiryRe_from_buffer_copy_def
  ChipRebootRe_from_buffer_copy_def GetParamDefinition2015Rq_from_buffer_copy_def
  GetParamDefinitionEOL2015Re_from_buffer_copy_def GetParamDefinitionU2015Re_from_buffer_copy_def
  GetParamDefinitionI2015Re_from_buffer_copy_def GetParamDefinitionF2015Re_from_buffer_copy_def

subsection \<open>The payload resolver\<close>

lemma length_ljust: "length (ljust bs w f) = max (length bs) w"
  by (simp add: ljust_def)

lemma ljust_long: "w \<le> length bs \<Longrightarrow> ljust bs w f = bs"
  by (simp add: ljust_def)

lemma ljust_zero_padded: "ljust payload 179 0 = zero_padded payload"
  by (simp add: ljust_def zero_padded_def)

lemma returning_Some: "returning x = Inr (Some r) \<longleftrightarrow> x = Inr r"
  by (cases x) (auto simp: returning_def)

lemma header_for_key_key:
  "uint (cmd_set (header_for_key 3 1 0xF0)) = CMD_SET_TYPE_value FLYCONTROLLER"
  "get_packet_type (header_for_key 3 1 0xF0) = PACKET_TYPE_value RESPONSE"
  "uint (cmd_id (header_for_key 3 1 0xF0)) = 0xF0"
  by (simp_all add: header_for_key_def set_cmd_id_def set_cmd_set_def set_packet_type_def
      get_packet_type_def DJICmdV1Header_init_def DJICmdV1Header_zero_def set_version_def
      set_whole_length_def Let_def)

lemma header_for_key_camera:
  "uint (cmd_set (header_for_key 2 1 0x99)) = CMD_SET_TYPE_value CAMERA"
  "get_packet_type (header_for_key 2 1 0x99) = PACKET_TYPE_value RESPONSE"
  "uint (cmd_id (header_for_key 2 1 0x99)) = 0x99"
  by (simp_all add: header_for_key_def set_cmd_id_def set_cmd_set_def set_packet_type_def
      get_packet_type_def DJICmdV1Header_init_def DJICmdV1Header_zero_def set_version_def
      set_whole_length_def Let_def)

text \<open>
  Claim C1. For the routing key (FLYCONTROLLER, response, 0xF0) and a payload of at least 20
  bytes, the resolver pads the payload with zero bytes to the full record size and returns
  the record with signed limit fields when the type tag read from the padded bytes lies in
  4..7, the record with floating-point limit fields when it is 8 or 9, and the record with
  unsigned limit fields otherwise; every field is read from the same padded bytes.
\<close>

theorem param_definition_variant_by_type_tag:
  assumes "uint (cmd_set h) = CMD_SET_TYPE_value FLYCONTROLLER"
    and "get_packet_type h = PACKET_TYPE_value RESPONSE"
    and "uint (cmd_id h) = 0xF0"
    and "20 \<le> length payload"
  shows "get_known_payload h payload =
    (let padded = zero_padded payload; typeTag = uint (le16 padded 1)
     in Inr (Some
       (if 4 \<le> typeTag \<and> typeTag \<le> 7 then
          DJIPayload_FlyController_GetParamDefinitionI2015Re (padded ! 0) (le16 padded 1)
            (le16 padded 3) (le16 padded 5) (sint (le32 padded 7)) (sint (le32 padded 11))
            (sint (le32 padded 15)) (take 160 (drop 19 padded))
        else if typeTag = 8 \<or> typeTag = 9 then
          DJIPayload_FlyController_GetParamDefinitionF2015Re (padded ! 0) (le16 padded 1)
            (le16 padded 3) (le16 padded 5) (C_float_bits (le32 padded 7))
            (C_float_bits (le32 padded 11)) (C_float_bits (le32 padded 15))
            (take 160 (drop 19 padded))
        else
          DJIPayload_FlyController_GetParamDefinitionU2015Re (padded ! 0) (le16 padded 1)
            (le16 padded 3) (le16 padded 5) (le32 padded 7) (le32 padded 11)
            (le32 padded 15) (take 160 (drop 19 padded)))))"
proof -
  have lp: "\<not> length (zero_padded payload) < 179"
    by (simp add: zero_padded_def)
  show ?thesis
    using assms
    by (simp add: get_known_payload_def payload_sizes ljust_zero_padded lp returning_def
        GetParamDefinitionU2015Re_from_buffer_copy_def
        GetParamDefinitionI2015Re_from_buffer_copy_def
        GetParamDefinitionF2015Re_from_buffer_copy_def Let_def)
qed

theorem param_definition_variant_by_type_tag_witness:
  "20 \<le> length [0, 4, 0, 4, 0, 0, 0, 0xF6, 0xFF, 0xFF, 0xFF, 10, 0, 0, 0, 0, 0, 0, 0, 0x41 :: c_ubyte]
   \<and> get_known_payload (header_for_key 3 1 0xF0)
       [0, 4, 0, 4, 0, 0, 0, 0xF6, 0xFF, 0xFF, 0xFF, 10, 0, 0, 0, 0, 0, 0, 0, 0x41]
     = Inr (Some (DJIPayload_FlyController_GetParamDefinitionI2015Re 0 4 4 0 (- 10) 10 0
         (0x41 # replicate 159 0)))"
  using param_definition_variant_by_type_tag [OF header_for_key_key,
      of "[0, 4, 0, 4, 0, 0, 0, 0xF6, 0xFF, 0xFF, 0xFF, 10, 0, 0, 0, 0, 0, 0, 0, 0x41]"]
  by (simp add: zero_padded_def le16_def le32_def Let_def)

text \<open>
  Claim C6. For the routing key (FLYCONTROLLER, response, 0xF0): a payload of 1 to 19 bytes
  yields the short end-of-parameter-list record whose status is payload byte 0; an empty
  payload yields \<^verbatim>\<open>None\<close>.
\<close>

theorem short_payload_is_end_of_list:
  assumes "uint (cmd_set h) = CMD_SET_TYPE_value FLYCONTROLLER"
    and "get_packet_type h = PACKET_TYPE_value RESPONSE"
    and "uint (cmd_id h) = 0xF0"
  shows "(1 \<le> length payload \<and> length payload \<le> 19 \<longrightarrow>
            get_known_payload h payload =
              Inr (Some (DJIPayload_FlyController_GetParamDefinitionEOL2015Re (payload ! 0))))
       \<and> (length payload = 0 \<longrightarrow> get_known_payload h payload = Inr None)"
  using assms
  by (simp add: get_known_payload_def payload_sizes returning_def
      GetParamDefinitionEOL2015Re_from_buffer_copy_def)

theorem short_payload_is_end_of_list_witness:
  "get_known_payload (header_for_key 3 1 0xF0) [7, 1, 2]
     = Inr (Some (DJIPayload_FlyController_GetParamDefinitionEOL2015Re 7))
   \<and> get_known_payload (header_for_key 3 1 0xF0) [] = Inr None"
  using short_payload_is_end_of_list [OF header_for_key_key, of "[7, 1, 2]"]
    short_payload_is_end_of_list [OF header_for_key_key, of "[]"]
  by simp

text \<open>
  Claim C3 (as stated): the result for a routing key without an entry can be told apart
  from the result for a known key whose payload is too short. It cannot: both are
  \<^verbatim>\<open>None\<close>, here for the empty payload under the known key (FLYCONTROLLER, response, 0xF0)
  and under the key (CAMERA, response, 0x99), which has no entry.
\<close>

theorem unrecognized_results_coincide:
  "get_known_payload (header_for_key 3 1 0xF0) [] = Inr None
   \<and> get_known_payload (header_for_key 2 1 0x99) [] = Inr None
   \<and> get_known_payload (header_for_key 3 1 0xF0) [] = get_known_payload (header_for_key 2 1 0x99) []"
  using header_for_key_key header_for_key_camera
  by (simp add: get_known_payload_def payload_sizes)

text \<open>
  Claim C3 (amended): the resolver has one sentinel. It returns \<^verbatim>\<open>None\<close> for every routing
  key without an entry and for every known key whose payload is shorter than the shortest
  variant of that key, and in no other case.
\<close>

theorem none_sentinel_characterised:
  "(\<not> known_routing_key h \<longrightarrow> get_known_payload h p = Inr None)
   \<and> (known_routing_key h \<and> length p < shortest_variant h \<longrightarrow> get_known_payload h p = Inr None)
   \<and> (known_routing_key h \<and> shortest_variant h \<le> length p \<longrightarrow>
        (\<exists>r. get_known_payload h p = Inr (Some r)))"
  by (auto simp add: get_known_payload_def known_routing_key_def shortest_variant_def
      payload_sizes returning_def from_buffer_copy_defs length_ljust Let_def)

theorem none_sentinel_characterised_witness:
  "\<not> known_routing_key (header_for_key 2 1 0x99)
   \<and> get_known_payload (header_for_key 2 1 0x99) [] = Inr None
   \<and> known_routing_key (header_for_key 3 1 0xF0)
   \<and> length ([] :: bytes) < shortest_variant (header_for_key 3 1 0xF0)
   \<and> get_known_payload (header_for_key 3 1 0xF0) [] = Inr None
   \<and> (\<exists>r. get_known_payload (header_for_key 3 1 0xF0) [7] = Inr (Some r))"
  using none_sentinel_characterised [of "header_for_key 2 1 0x99" "[]"]
    none_sentinel_characterised [of "header_for_key 3 1 0xF0" "[]"]
    none_sentinel_characterised [of "header_for_key 3 1 0xF0" "[7]"]
    header_for_key_key header_for_key_camera
  by (simp add: known_routing_key_def shortest_variant_def payload_sizes)

subsection \<open>Totality of the resolver\<close>

lemma le16_take: "off + 1 < n \<Longrightarrow> le16 (take n bs) off = le16 bs off"
  by (simp add: le16_def)

lemma le32_take: "off + 3 < n \<Longrightarrow> le32 (take n bs) off = le32 bs off"
  by (simp add: le32_def)

lemma VersionInquiryRe_take:
  "31 \<le> length bs \<Longrightarrow>
     VersionInquiryRe_from_buffer_copy (take 31 bs) = VersionInquiryRe_from_buffer_copy bs"
  by (simp add: VersionInquiryRe_from_buffer_copy_def payload_sizes le32_take drop_take)

lemma ChipRebootRe_take:
  "Suc 0 \<le> length bs \<Longrightarrow>
     ChipRebootRe_from_buffer_copy (take (Suc 0) bs) = ChipRebootRe_from_buffer_copy bs"
  by (cases bs) (simp_all add: ChipRebootRe_from_buffer_copy_def payload_sizes)

lemma GetParamDefinition2015Rq_take:
  "2 \<le> length bs \<Longrightarrow>
     GetParamDefinition2015Rq_from_buffer_copy (take 2 bs)
       = GetParamDefinition2015Rq_from_buffer_copy bs"
  by (simp add: GetParamDefinition2015Rq_from_buffer_copy_def payload_sizes le16_take)

lemma GetParamDefinitionEOL2015Re_take:
  "Suc 0 \<le> length bs \<Longrightarrow>
     GetParamDefinitionEOL2015Re_from_buffer_copy (take (Suc 0) bs)
       = GetParamDefinitionEOL2015Re_from_buffer_copy bs"
  by (cases bs) (simp_all add: GetParamDefinitionEOL2015Re_from_buffer_copy_def payload_sizes)

lemma GetParamDefinitionU2015Re_take:
  "179 \<le> length bs \<Longrightarrow>
     GetParamDefinitionU2015Re_from_buffer_copy (take 179 bs)
       = GetParamDefinitionU2015Re_from_buffer_copy bs"
  by (simp add: GetParamDefinitionU2015Re_from_buffer_copy_def payload_sizes le16_take le32_take
      drop_take)

lemma GetParamDefinitionI2015Re_take:
  "179 \<le> length bs \<Longrightarrow>
     GetParamDefinitionI2015Re_from_buffer_copy (take 179 bs)
       = GetParamDefinitionI2015Re_from_buffer_copy bs"
  by (simp add: GetParamDefinitionI2015Re_from_buffer_copy_def payload_sizes le16_take le32_take
      drop_take)

lemma GetParamDefinitionF2015Re_take:
  "179 \<le> length bs \<Longrightarrow>
     GetParamDefinitionF2015Re_from_buffer_copy (take 179 bs)
       = GetParamDefinitionF2015Re_from_buffer_copy bs"
  by (simp add: GetParamDefinitionF2015Re_from_buffer_copy_def payload_sizes le16_take le32_take
      drop_take)

lemma VersionInquiryRe_size:
  "VersionInquiryRe_from_buffer_copy bs = Inr r \<Longrightarrow> payload_sizeof r = 31"
  by (auto simp: VersionInquiryRe_from_buffer_copy_def payload_sizes split: if_splits)

lemma ChipRebootRe_size:
  "ChipRebootRe_from_buffer_copy bs = Inr r \<Longrightarrow> payload_sizeof r = 1"
  by (auto simp: ChipRebootRe_from_buffer_copy_def payload_sizes split: if_splits)

lemma GetParamDefinition2015Rq_size:
  "GetParamDefinition2015Rq_from_buffer_copy bs = Inr r \<Longrightarrow> payload_sizeof r = 2"
  by (auto simp: GetParamDefinition2015Rq_from_buffer_copy_def payload_sizes split: if_splits)

lemma GetParamDefinitionEOL2015Re_size:
  "GetParamDefinitionEOL2015Re_from_buffer_copy bs = Inr r \<Longrightarrow> payload_sizeof r = 1"
  by (auto simp: GetParamDefinitionEOL2015Re_from_buffer_copy_def payload_sizes split: if_splits)

lemma GetParamDefinitionU2015Re_size:
  "GetParamDefinitionU2015Re_from_buffer_copy bs = Inr r \<Longrightarrow> payload_sizeof r = 179"
  by (auto simp: GetParamDefinitionU2015Re_from_buffer_copy_def payload_sizes split: if_splits)

lemma GetParamDefinitionI2015Re_size:
  "GetParamDefinitionI2015Re_from_buffer_copy bs = Inr r \<Longrightarrow> payload_sizeof r = 179"
  by (auto simp: GetParamDefinitionI2015Re_from_buffer_copy_def payload_sizes split: if_splits)

lemma GetParamDefinitionF2015Re_size:
  "GetParamDefinitionF2015Re_from_buffer_copy bs = Inr r \<Longrightarrow> payload_sizeof r = 179"
  by (auto simp: GetParamDefinitionF2015Re_from_buffer_copy_def payload_sizes split: if_splits)

lemma get_known_payload_never_raises: "\<exists>r. get_known_payload h p = Inr r"
  by (simp add: get_known_payload_def payload_sizes returning_def length_ljust
      from_buffer_copy_defs)

text \<open>Cutting a payload down to the declared size of the structure it resolves to does not
  change the result.\<close>

lemma get_known_payload_excess_ignored:
  assumes "get_known_payload h p = Inr (Some r)"
  shows "get_known_payload h (take (payload_sizeof r) p) = Inr (Some r)"
proof -
  consider (version) "uint (cmd_set h) = 0 \<and> get_packet_type h = 1 \<and> uint (cmd_id h) = 1
        \<and> 31 \<le> length p"
    | (reboot) "uint (cmd_set h) = 0 \<and> get_packet_type h = 1 \<and> uint (cmd_id h) = 0x0b
        \<and> 1 \<le> length p"
    | (request) "uint (cmd_set h) = 3 \<and> get_packet_type h = 0 \<and> uint (cmd_id h) = 0xf0
        \<and> 2 \<le> length p"
    | (full) "uint (cmd_set h) = 3 \<and> get_packet_type h = 1 \<and> uint (cmd_id h) = 0xf0
        \<and> 20 \<le> length p"
    | (eol) "uint (cmd_set h) = 3 \<and> get_packet_type h = 1 \<and> uint (cmd_id h) = 0xf0
        \<and> 1 \<le> length p \<and> length p < 20"
    using assms by (auto simp: get_known_payload_def payload_sizes split: if_splits)
  then show ?thesis
  proof cases
    case version
    with assms have r: "VersionInquiryRe_from_buffer_copy p = Inr r"
      by (simp add: get_known_payload_def payload_sizes returning_Some)
    from version r show ?thesis
      by (simp add: VersionInquiryRe_size [OF r] get_known_payload_def payload_sizes
          returning_Some VersionInquiryRe_take)
  next
    case reboot
    with assms have r: "ChipRebootRe_from_buffer_copy p = Inr r"
      by (simp add: get_known_payload_def payload_sizes returning_Some)
    from reboot r show ?thesis
      by (simp add: ChipRebootRe_size [OF r] get_known_payload_def payload_sizes
          returning_Some ChipRebootRe_take)
  next
    case request
    with assms have r: "GetParamDefinition2015Rq_from_buffer_copy p = Inr r"
      by (simp add: get_known_payload_def payload_sizes returning_Some)
    from request r show ?thesis
      by (simp add: GetParamDefinition2015Rq_size [OF r] get_known_payload_def payload_sizes
          returning_Some GetParamDefinition2015Rq_take)
  next
    case eol
    with assms have r: "GetParamDefinitionEOL2015Re_from_buffer_copy p = Inr r"
      by (simp add: get_known_payload_def payload_sizes returning_Some)
    from eol r show ?thesis
      by (simp add: GetParamDefinitionEOL2015Re_size [OF r] get_known_payload_def payload_sizes
          returning_Some GetParamDefinitionEOL2015Re_take)
  next
    case full
    have sz: "payload_sizeof r = 179"
      using assms full
      by (auto simp: get_known_payload_def payload_sizes returning_Some
          dest: GetParamDefinitionU2015Re_size GetParamDefinitionI2015Re_size
            GetParamDefinitionF2015Re_size
          split: if_splits sum.splits)
    show ?thesis
    proof (cases "length p < 179")
      case True
      then show ?thesis using assms by (simp add: sz)
    next
      case False
      then have l: "179 \<le> length p" by simp
      have "get_known_payload h (take 179 p) = get_known_payload h p"
        using full l
        by (simp add: get_known_payload_def payload_sizes ljust_long
            GetParamDefinitionU2015Re_take GetParamDefinitionI2015Re_take
            GetParamDefinitionF2015Re_take split: sum.splits)
      then show ?thesis using assms by (simp add: sz)
    qed
  qed
qed

text \<open>
  Claim C10. The resolver is total: for every header and every payload it returns a
  structure or \<^verbatim>\<open>None\<close> and never raises. A payload longer than the declared size of the
  structure it resolves to is accepted, and the bytes beyond that size are ignored: the
  payload cut to that size resolves to the same structure.
\<close>

theorem get_known_payload_total:
  "(\<exists>r. get_known_payload h p = Inr r)
   \<and> (\<forall>r. get_known_payload h p = Inr (Some r) \<longrightarrow>
          get_known_payload h (take (payload_sizeof r) p) = Inr (Some r))"
  using get_known_payload_never_raises get_known_payload_excess_ignored by blast

theorem get_known_payload_total_witness:
  "get_known_payload (header_for_key 3 1 0xF0) [7, 1, 2]
     = Inr (Some (DJIPayload_FlyController_GetParamDefinitionEOL2015Re 7))
   \<and> payload_sizeof (DJIPayload_FlyController_GetParamDefinitionEOL2015Re 7) = 1
   \<and> get_known_payload (header_for_key 3 1 0xF0)
        (take (payload_sizeof (DJIPayload_FlyController_GetParamDefinitionEOL2015Re 7)) [7, 1, 2])
     = Inr (Some (DJIPayload_FlyController_GetParamDefinitionEOL2015Re 7))"
proof -
  have a: "get_known_payload (header_for_key 3 1 0xF0) [7, 1, 2]
     = Inr (Some (DJIPayload_FlyController_GetParamDefinitionEOL2015Re 7))"
    using header_for_key_key
    by (simp add: get_known_payload_def payload_sizes returning_def
        GetParamDefinitionEOL2015Re_from_buffer_copy_def)
  from get_known_payload_total [of "header_for_key 3 1 0xF0" "[7, 1, 2]"] a
  show ?thesis by (simp add: payload_sizes)
qed

subsection \<open>Bit patterns of the masks\<close>

lemma mask_1023: "(1023::int) = mask 10"
  by (simp add: mask_eq_exp_minus_1)

lemma mask_64512: "(64512::int) = push_bit 10 (mask 6)"
  by (simp add: mask_eq_exp_minus_1 push_bit_eq_mult)

lemma mask_63: "(63::int) = mask 6"
  by (simp add: mask_eq_exp_minus_1)

lemma mask_31: "(31::int) = mask 5"
  by (simp add: mask_eq_exp_minus_1)

lemma mask_7: "(7::int) = mask 3"
  by (simp add: mask_eq_exp_minus_1)

lemma mask_3: "(3::int) = mask 2"
  by (simp add: mask_eq_exp_minus_1)

lemma mask_1: "(1::int) = mask 1"
  by (simp add: mask_eq_exp_minus_1)

lemma mask_127: "(127::int) = mask 7"
  by (simp add: mask_eq_exp_minus_1)

lemma mask_224: "(224::int) = push_bit 5 (mask 3)"
  by (simp add: mask_eq_exp_minus_1 push_bit_eq_mult)

lemma mask_248: "(248::int) = push_bit 3 (mask 5)"
  by (simp add: mask_eq_exp_minus_1 push_bit_eq_mult)

lemma mask_159: "(159::int) = mask 5 OR push_bit 7 (mask 1)"
  by (simp add: mask_eq_exp_minus_1 push_bit_eq_mult)

lemmas field_masks = mask_1023 mask_64512 mask_63 mask_31 mask_7 mask_3 mask_127 mask_224
  mask_248 mask_159

lemma bit_128: "bit (128::int) m \<longleftrightarrow> m = 7"
proof -
  have "(128::int) = push_bit 7 1" by (simp add: push_bit_eq_mult)
  then show ?thesis by (simp only: bit_push_bit_iff bit_1_iff) auto
qed

lemma bit_1024: "bit (1024::int) m \<longleftrightarrow> m = 10"
proof -
  have "(1024::int) = push_bit 10 1" by (simp add: push_bit_eq_mult)
  then show ?thesis by (simp only: bit_push_bit_iff bit_1_iff) auto
qed

lemma mod_pow2_take_bit: "(v::int) mod 2 ^ n = take_bit n v"
  by (simp add: take_bit_eq_mod)

lemma mod_2_take_bit: "(v::int) mod 2 = take_bit 1 v"
  by (simp add: take_bit_eq_mod)

lemmas setter_defs = set_version_def set_whole_length_def set_sender_type_def
  set_sender_index_def set_receiver_type_def set_receiver_index_def set_seq_num_def
  set_packet_type_def set_ack_type_def set_encrypt_type_def set_cmd_set_def set_cmd_id_def

subsection \<open>Every property reads back what was assigned, reduced to its width\<close>

lemma get_version_set_all: "get_version (set_all_fields h f) = fld_version f mod 2 ^ 6"
  unfolding get_version_def set_all_fields_def Let_def setter_defs mod_pow2_take_bit
  apply (simp only: DJICmdV1Header.simps uint_word_of_int_eq field_masks)
  apply (rule bit_eqI)
  apply (auto simp add: bit_simps)
  done

lemma get_whole_length_set_all:
  "get_whole_length (set_all_fields h f) = fld_whole_length f mod 2 ^ 10"
  unfolding get_whole_length_def set_all_fields_def Let_def setter_defs mod_pow2_take_bit
  apply (simp only: DJICmdV1Header.simps uint_word_of_int_eq field_masks)
  apply (rule bit_eqI)
  apply (auto simp add: bit_simps)
  done

lemma get_sender_type_set_all:
  "get_sender_type (set_all_fields h f) = fld_sender_type f mod 2 ^ 5"
  unfolding get_sender_type_def set_all_fields_def Let_def setter_defs mod_pow2_take_bit
  apply (simp only: DJICmdV1Header.simps uint_word_of_int_eq field_masks)
  apply (rule bit_eqI)
  apply (auto simp add: bit_simps)
  done

lemma get_sender_index_set_all:
  "get_sender_index (set_all_fields h f) = fld_sender_index f mod 2 ^ 3"
  unfolding get_sender_index_def set_all_fields_def Let_def setter_defs mod_pow2_take_bit
  apply (simp only: DJICmdV1Header.simps uint_word_of_int_eq field_masks)
  apply (rule bit_eqI)
  apply (auto simp add: bit_simps)
  done

lemma get_receiver_type_set_all:
  "get_receiver_type (set_all_fields h f) = fld_receiver_type f mod 2 ^ 5"
  unfolding get_receiver_type_def set_all_fields_def Let_def setter_defs mod_pow2_take_bit
  apply (simp only: DJICmdV1Header.simps uint_word_of_int_eq field_masks)
  apply (rule bit_eqI)
  apply (auto simp add: bit_simps)
  done

lemma get_receiver_index_set_all:
  "get_receiver_index (set_all_fields h f) = fld_receiver_index f mod 2 ^ 3"
  unfolding get_receiver_index_def set_all_fields_def Let_def setter_defs mod_pow2_take_bit
  apply (simp only: DJICmdV1Header.simps uint_word_of_int_eq field_masks)
  apply (rule bit_eqI)
  apply (auto simp add: bit_simps)
  done

lemma get_packet_type_set_all:
  "get_packet_type (set_all_fields h f) = fld_packet_type f mod 2"
  unfolding get_packet_type_def set_all_fields_def Let_def setter_defs mod_2_take_bit
  apply (simp only: DJICmdV1Header.simps uint_word_of_int_eq field_masks)
  apply (simp only: mask_1)
  apply (rule bit_eqI)
  apply (auto simp add: bit_simps bit_0)
  done

lemma get_ack_type_set_all: "get_ack_type (set_all_fields h f) = fld_ack_type f mod 2 ^ 2"
  unfolding get_ack_type_def set_all_fields_def Let_def setter_defs mod_pow2_take_bit
  apply (simp only: DJICmdV1Header.simps uint_word_of_int_eq field_masks)
  apply (rule bit_eqI)
  apply (auto simp add: bit_simps bit_128)
  done

lemma get_encrypt_type_set_all:
  "get_encrypt_type (set_all_fields h f) = fld_encrypt_type f mod 2 ^ 3"
  unfolding get_encrypt_type_def set_all_fields_def Let_def setter_defs mod_pow2_take_bit
  apply (simp only: DJICmdV1Header.simps uint_word_of_int_eq field_masks)
  apply (rule bit_eqI)
  apply (auto simp add: bit_simps)
  done

lemma seq_num_set_all: "uint (seq_num (set_all_fields h f)) = fld_seq_num f mod 2 ^ 16"
  unfolding set_all_fields_def Let_def setter_defs
  by (simp add: uint_word_of_int)

lemma cmd_set_set_all: "uint (cmd_set (set_all_fields h f)) = fld_cmd_set f mod 2 ^ 8"
  unfolding set_all_fields_def Let_def setter_defs
  by (simp add: uint_word_of_int)

lemma cmd_id_set_all: "uint (cmd_id (set_all_fields h f)) = fld_cmd_id f mod 2 ^ 8"
  unfolding set_all_fields_def Let_def setter_defs
  by (simp add: uint_word_of_int)

subsection \<open>The structure and its bytes\<close>

lemma le16_join:
  "ucast (ucast w :: 8 word) OR push_bit 8 (ucast (ucast (drop_bit 8 w) :: 8 word))
     = (w :: 16 word)"
  by (rule bit_word_eqI) (auto simp add: bit_simps)

lemma length_le16_bytes: "length (le16_bytes w) = 2"
  by (simp add: le16_bytes_def)

lemma length_DJICmdV1Header_bytes: "length (DJICmdV1Header_bytes h) = 11"
  by (simp add: DJICmdV1Header_bytes_def length_le16_bytes)

lemma from_buffer_copy_bytes:
  "DJICmdV1Header_from_buffer_copy (DJICmdV1Header_bytes h @ rest) = Inr (h :: DJICmdV1Header)"
  by (simp add: DJICmdV1Header_from_buffer_copy_def DJICmdV1Header_bytes_def
      sizeof_DJICmdV1Header le16_bytes_def le16_def le16_join)

lemma header_decode_encode: "header_decode (header_encode f) = Inr (fields_truncated f)"
  using from_buffer_copy_bytes [of "set_all_fields DJICmdV1Header_init f" "[]"]
  by (simp add: header_decode_def header_encode_def get_all_fields_def fields_truncated_def
      get_version_set_all get_whole_length_set_all get_sender_type_set_all
      get_sender_index_set_all get_receiver_type_set_all get_receiver_index_set_all
      get_packet_type_set_all get_ack_type_set_all get_encrypt_type_set_all seq_num_set_all
      cmd_set_set_all cmd_id_set_all)

lemma fields_truncated_in_range: "fields_in_range f \<Longrightarrow> fields_truncated f = f"
  by (simp add: fields_in_range_def fields_truncated_def)

text \<open>
  Claim C5 (as stated): decoding the 9 header bytes produced by encoding yields the fields.
  The header structure has 11 bytes, the command set and the command selector being its
  last two; nine of them are rejected by the decoder.
\<close>

theorem nine_header_bytes_do_not_decode:
  "length (header_encode
      \<lparr>fld_version = 1, fld_whole_length = 13, fld_sender_type = 10, fld_sender_index = 0,
       fld_receiver_type = 3, fld_receiver_index = 0, fld_seq_num = 1, fld_packet_type = 0,
       fld_ack_type = 0, fld_encrypt_type = 0, fld_cmd_set = 3, fld_cmd_id = 0xF0\<rparr>) = 11
   \<and> header_decode (take 9 (header_encode
      \<lparr>fld_version = 1, fld_whole_length = 13, fld_sender_type = 10, fld_sender_index = 0,
       fld_receiver_type = 3, fld_receiver_index = 0, fld_seq_num = 1, fld_packet_type = 0,
       fld_ack_type = 0, fld_encrypt_type = 0, fld_cmd_set = 3, fld_cmd_id = 0xF0\<rparr>))
     = Inl ValueError"
  by (simp add: header_encode_def header_decode_def DJICmdV1Header_from_buffer_copy_def
      length_DJICmdV1Header_bytes sizeof_DJICmdV1Header)

text \<open>
  Claim C5 (amended): for every assignment of the header fields, decoding the 11 header
  bytes produced by encoding yields every field reduced modulo 2 to the power of its width
  (no value is rejected); when every field lies within its declared width, the decoded
  fields are the original ones.
\<close>

theorem header_round_trip:
  "header_decode (header_encode f) = Inr (fields_truncated f)
   \<and> length (header_encode f) = 11
   \<and> (fields_in_range f \<longrightarrow> header_decode (header_encode f) = Inr f)"
proof -
  have "length (header_encode f) = 11"
    by (simp add: header_encode_def length_DJICmdV1Header_bytes)
  then show ?thesis
    by (simp add: header_decode_encode fields_truncated_in_range)
qed

theorem header_round_trip_witness:
  "fields_in_range
      \<lparr>fld_version = 1, fld_whole_length = 13, fld_sender_type = 10, fld_sender_index = 0,
       fld_receiver_type = 3, fld_receiver_index = 0, fld_seq_num = 1, fld_packet_type = 0,
       fld_ack_type = 0, fld_encrypt_type = 0, fld_cmd_set = 3, fld_cmd_id = 0xF0\<rparr>
   \<and> header_decode (header_encode
      \<lparr>fld_version = 1, fld_whole_length = 13, fld_sender_type = 10, fld_sender_index = 0,
       fld_receiver_type = 3, fld_receiver_index = 0, fld_seq_num = 1, fld_packet_type = 0,
       fld_ack_type = 0, fld_encrypt_type = 0, fld_cmd_set = 3, fld_cmd_id = 0xF0\<rparr>)
     = Inr \<lparr>fld_version = 1, fld_whole_length = 13, fld_sender_type = 10, fld_sender_index = 0,
       fld_receiver_type = 3, fld_receiver_index = 0, fld_seq_num = 1, fld_packet_type = 0,
       fld_ack_type = 0, fld_encrypt_type = 0, fld_cmd_set = 3, fld_cmd_id = 0xF0\<rparr>"
proof -
  have r: "fields_in_range
      \<lparr>fld_version = 1, fld_whole_length = 13, fld_sender_type = 10, fld_sender_index = 0,
       fld_receiver_type = 3, fld_receiver_index = 0, fld_seq_num = 1, fld_packet_type = 0,
       fld_ack_type = 0, fld_encrypt_type = 0, fld_cmd_set = 3, fld_cmd_id = 0xF0\<rparr>"
    by (simp add: fields_in_range_def)
  from r header_round_trip [of
      "\<lparr>fld_version = 1, fld_whole_length = 13, fld_sender_type = 10, fld_sender_index = 0,
       fld_receiver_type = 3, fld_receiver_index = 0, fld_seq_num = 1, fld_packet_type = 0,
       fld_ack_type = 0, fld_encrypt_type = 0, fld_cmd_set = 3, fld_cmd_id = 0xF0\<rparr>"]
  show ?thesis by blast
qed

subsection \<open>The packet builder in closed form\<close>

lemma encode_via_built_header:
  "encode_command_packet c8 c16 st si rt ri sn pt at et cs ci payload =
     (let pkthead = built_header c8 st si rt ri sn pt at et cs ci (length payload);
          enc_data = replicate (nat (get_whole_length pkthead)) (0 :: c_ubyte)
      in case memmove enc_data 0 (DJICmdV1Header_bytes pkthead) of
           Inl e \<Rightarrow> Inl e
         | Inr enc_data \<Rightarrow>
             (case memmove enc_data (sizeof DJICmdV1Header_fields) payload of
                Inl e \<Rightarrow> Inl e
              | Inr enc_data \<Rightarrow>
                  (let crc16 = c16 enc_data (int (length enc_data) - 2)
                   in memmove enc_data (sizeof DJICmdV1Header_fields + length payload)
                        (le16_bytes crc16))))"
  by (simp only: encode_command_packet_def built_header_def Let_def)

lemma init_ver_length_tag: "ver_length_tag DJICmdV1Header_init = 1037"
  by (simp add: DJICmdV1Header_init_def DJICmdV1Header_zero_def set_version_def
      set_whole_length_def sizeof_DJICmdV1Header Let_def)

lemma uint_1037_and: "uint (1037 :: 16 word) AND 64512 = 1024"
proof -
  have "uint (1037 :: 16 word) = 1037" by simp
  then show ?thesis by simp
qed

lemma built_ver_length_tag:
  "ver_length_tag (built_header c8 st si rt ri sn pt at et cs ci n)
     = word_of_int (1024 OR ((13 + int n) AND 1023))"
proof -
  have "ver_length_tag (built_header c8 st si rt ri sn pt at et cs ci n)
      = ver_length_tag (set_whole_length DJICmdV1Header_init (int 11 + int n + 2))"
    by (simp add: built_header_def Let_def set_sender_type_def set_sender_index_def
      set_receiver_type_def set_receiver_index_def set_seq_num_def set_packet_type_def
      set_ack_type_def set_encrypt_type_def set_cmd_set_def set_cmd_id_def
      sizeof_DJICmdV1Header)
  also have "\<dots> = word_of_int ((uint (ver_length_tag DJICmdV1Header_init) AND 64512)
       OR ((int 11 + int n + 2) AND 1023))"
    by (simp add: set_whole_length_def)
  also have "int 11 + int n + 2 = 13 + int n" by simp
  finally show ?thesis by (simp only: init_ver_length_tag uint_1037_and)
qed

lemma low_bits_of_packed_word:
  "uint (word_of_int (1024 OR (v AND 1023)) :: 16 word) AND 1023 = v mod 1024"
proof -
  have m: "v mod 1024 = take_bit 10 v" by (simp add: take_bit_eq_mod)
  show ?thesis
    unfolding m
    apply (simp only: uint_word_of_int_eq mask_1023)
    apply (rule bit_eqI)
    apply (auto simp add: bit_simps bit_1024)
    done
qed

lemma high_bits_of_packed_word:
  "drop_bit 10 (word_of_int (1024 OR (v AND 1023)) :: 16 word) = 1"
  apply (simp only: mask_1023)
  apply (rule bit_word_eqI)
  apply (auto simp add: bit_simps bit_1024 bit_1_iff)
  done

lemma version_bits_of_packed_word:
  "drop_bit 10 (uint (word_of_int (1024 OR (v AND 1023)) :: 16 word) AND 64512) = 1"
  apply (simp only: uint_word_of_int_eq mask_1023 mask_64512)
  apply (rule bit_eqI)
  apply (auto simp add: bit_simps bit_1024 bit_1_iff)
  done

lemma built_whole_length:
  "get_whole_length (built_header c8 st si rt ri sn pt at et cs ci n) = (13 + int n) mod 1024"
  by (simp only: get_whole_length_def built_ver_length_tag low_bits_of_packed_word)

lemma built_first_three:
  "take 3 (DJICmdV1Header_bytes (built_header c8 st si rt ri sn pt at et cs ci n))
     = 0x55 # le16_bytes (word_of_int (1024 OR ((13 + int n) AND 1023)))"
proof -
  have "sof (built_header c8 st si rt ri sn pt at et cs ci n) = 0x55"
    by (simp add: built_header_def Let_def setter_defs DJICmdV1Header_init_def)
  then show ?thesis
    by (simp add: DJICmdV1Header_bytes_def le16_bytes_def built_ver_length_tag)
qed

lemma built_header_crc8:
  "header_crc8 (built_header c8 st si rt ri sn pt at et cs ci n)
     = c8 0x77 (take 3 (DJICmdV1Header_bytes (built_header c8 st si rt ri sn pt at et cs ci n))) 3"
  by (simp add: built_header_def Let_def setter_defs DJICmdV1Header_bytes_def le16_bytes_def)

lemma replicate_13_plus:
  "replicate (13 + n) (0::c_ubyte) = replicate 11 0 @ replicate n 0 @ [0, 0]"
proof -
  have "13 + n = 11 + (n + 2)" by simp
  then have "replicate (13 + n) (0::c_ubyte) = replicate (11 + (n + 2)) 0"
    by (rule arg_cong)
  also have "\<dots> = replicate 11 0 @ replicate n 0 @ replicate 2 0"
    by (simp only: replicate_add)
  also have "replicate 2 (0::c_ubyte) = [0, 0]" by (simp add: numeral_2_eq_2)
  finally show ?thesis .
qed

lemma encode_fits:
  assumes "length payload \<le> 1010"
  shows "encode_command_packet c8 c16 st si rt ri sn pt at et cs ci payload =
    Inr (DJICmdV1Header_bytes (built_header c8 st si rt ri sn pt at et cs ci (length payload))
         @ payload
         @ le16_bytes (c16
             (DJICmdV1Header_bytes (built_header c8 st si rt ri sn pt at et cs ci (length payload))
                @ payload @ [0, 0])
             (11 + int (length payload))))"
proof -
  have wl: "nat ((13 + int (length payload)) mod 1024) = 13 + length payload"
    using assms by simp
  show ?thesis
    unfolding encode_via_built_header
    by (simp add: Let_def built_whole_length wl memmove_def length_DJICmdV1Header_bytes
        sizeof_DJICmdV1Header length_le16_bytes replicate_13_plus)
qed

lemma encode_overrun:
  assumes "1010 < length payload"
  shows "encode_command_packet c8 c16 st si rt ri sn pt at et cs ci payload = Inl BufferOverrun"
proof -
  have "(13 + int (length payload)) mod 1024 < 1024" by simp
  then have wl: "nat ((13 + int (length payload)) mod 1024) < 13 + length payload"
    using assms by linarith
  show ?thesis
    unfolding encode_via_built_header
    using wl
    by (auto simp add: Let_def built_whole_length memmove_def length_DJICmdV1Header_bytes
        sizeof_DJICmdV1Header length_le16_bytes split: sum.splits if_splits)
qed

lemma encode_Inr_length:
  "encode_command_packet c8 c16 st si rt ri sn pt at et cs ci payload = Inr buf
     \<Longrightarrow> length payload \<le> 1010"
  using encode_overrun [of payload c8 c16 st si rt ri sn pt at et cs ci]
  by (cases "length payload \<le> 1010") simp_all

lemma encode_Inr_shape:
  assumes "encode_command_packet c8 c16 st si rt ri sn pt at et cs ci payload = Inr buf"
  shows "buf = DJICmdV1Header_bytes (built_header c8 st si rt ri sn pt at et cs ci (length payload))
         @ payload
         @ le16_bytes (c16
             (DJICmdV1Header_bytes (built_header c8 st si rt ri sn pt at et cs ci (length payload))
                @ payload @ [0, 0])
             (11 + int (length payload)))"
  using assms encode_fits [OF encode_Inr_length [OF assms], of c8 c16 st si rt ri sn pt at et cs ci]
  by simp

lemma header_bytes_nth_3: "DJICmdV1Header_bytes h ! 3 = header_crc8 h"
  by (simp add: DJICmdV1Header_bytes_def le16_bytes_def)

lemma le16_header_bytes: "le16 (DJICmdV1Header_bytes h @ rest) 1 = ver_length_tag h"
  by (simp add: DJICmdV1Header_bytes_def le16_bytes_def le16_def le16_join)

lemma sender_index_plus_8: "set_sender_index h (k + 8) = set_sender_index h k"
proof -
  have "take_bit 3 (k + 8) = take_bit 3 k"
    by (simp add: take_bit_eq_mod)
  then have "(k + 8) AND 7 = k AND 7"
    by (simp only: mask_7 take_bit_eq_mask)
  then show ?thesis
    by (simp only: set_sender_index_def)
qed

lemma sum_checksum16_reads_prefix_only: "reads_prefix_only sum_checksum16"
  by (simp add: reads_prefix_only_def sum_checksum16_def)

text \<open>Two concrete builds, with the stand-in checksums.\<close>

lemma example_build:
  "encode_command_packet xor_checksum8 sum_checksum16 10 1 3 9 0x1234 0 2 0 3 0xF0 [1, 2]
     = Inr example_packet"
  by code_simp

lemma example_build_other_routing:
  "encode_command_packet xor_checksum8 sum_checksum16 2 0 4 1 7 1 0 0 0 1 [1, 2]
     = Inr example_packet_other_routing"
  by code_simp

subsection \<open>The built packet\<close>

text \<open>
  Claim C2. In every packet the builder returns, the header checksum (byte 3) is the 8-bit
  checksum, with seed 0x77, of exactly the first three bytes: the start marker and the
  packed version/length word. Hence two builds that differ only in the sender, receiver,
  sequence number, command type, command set or command selector carry the same header
  checksum.
\<close>

theorem header_checksum_of_first_three_bytes:
  assumes "encode_command_packet c8 c16 st si rt ri sn pt at et cs ci payload = Inr buf"
    and "encode_command_packet c8 c16 st' si' rt' ri' sn' pt' at' et' cs' ci' payload = Inr buf'"
  shows "buf ! 3 = c8 0x77 (take 3 buf) 3
       \<and> take 3 buf = 0x55 # le16_bytes (le16 buf 1)
       \<and> buf' ! 3 = buf ! 3"
proof -
  let ?h = "built_header c8 st si rt ri sn pt at et cs ci (length payload)"
  let ?h' = "built_header c8 st' si' rt' ri' sn' pt' at' et' cs' ci' (length payload)"
  from encode_Inr_shape [OF assms(1)] obtain rest where buf: "buf = DJICmdV1Header_bytes ?h @ rest"
    by simp
  from encode_Inr_shape [OF assms(2)] obtain rest' where buf': "buf' = DJICmdV1Header_bytes ?h' @ rest'"
    by simp
  have t: "take 3 buf = take 3 (DJICmdV1Header_bytes ?h)"
    by (simp add: buf length_DJICmdV1Header_bytes)
  have t': "take 3 buf' = take 3 (DJICmdV1Header_bytes ?h')"
    by (simp add: buf' length_DJICmdV1Header_bytes)
  have n: "buf ! 3 = header_crc8 ?h"
    by (simp add: buf nth_append length_DJICmdV1Header_bytes header_bytes_nth_3)
  have n': "buf' ! 3 = header_crc8 ?h'"
    by (simp add: buf' nth_append length_DJICmdV1Header_bytes header_bytes_nth_3)
  have w: "le16 buf 1 = word_of_int (1024 OR ((13 + int (length payload)) AND 1023))"
    by (simp only: buf le16_header_bytes built_ver_length_tag)
  have "buf ! 3 = c8 0x77 (take 3 buf) 3"
    by (simp only: n t built_header_crc8)
  moreover have "take 3 buf = 0x55 # le16_bytes (le16 buf 1)"
    by (simp only: t w built_first_three)
  moreover have "buf' ! 3 = buf ! 3"
    by (simp only: n n' built_header_crc8 built_first_three)
  ultimately show ?thesis by simp
qed

theorem header_checksum_of_first_three_bytes_witness:
  "encode_command_packet xor_checksum8 sum_checksum16 10 1 3 9 0x1234 0 2 0 3 0xF0 [1, 2]
     = Inr example_packet
   \<and> encode_command_packet xor_checksum8 sum_checksum16 2 0 4 1 7 1 0 0 0 1 [1, 2]
     = Inr example_packet_other_routing
   \<and> example_packet ! 3
     = xor_checksum8 0x77
         (take 3 example_packet) 3
   \<and> example_packet_other_routing ! 3
     = example_packet ! 3"
  using header_checksum_of_first_three_bytes [OF example_build example_build_other_routing]
    example_build example_build_other_routing
  by blast

text \<open>
  Claim C4 (as stated): the packed total length is 9 + len(p) + 2 for every payload, and the
  buffer is that long. For the empty payload the packed length is 13, not 11; and for a
  payload of 1011 bytes the length is masked to 0, so no buffer of the packed length can
  hold the packet, whatever the header size is taken to be.
\<close>

theorem length_invariant_fails:
  "\<not> length_invariant 9 xor_checksum8 sum_checksum16 10 1 3 9 0x1234 0 2 0 3 0xF0 []
   \<and> \<not> length_invariant 9 xor_checksum8 sum_checksum16 10 1 3 9 0x1234 0 2 0 3 0xF0
         (replicate 1011 0)
   \<and> \<not> length_invariant 11 xor_checksum8 sum_checksum16 10 1 3 9 0x1234 0 2 0 3 0xF0
         (replicate 1011 0)
   \<and> get_whole_length (built_header xor_checksum8 10 1 3 9 0x1234 0 2 0 3 0xF0 1011) = 0"
proof -
  have "encode_command_packet xor_checksum8 sum_checksum16 10 1 3 9 0x1234 0 2 0 3 0xF0 []
      = Inr [0x55, 0x0D, 0x04, 0x2B, 0x2A, 0x23, 0x34, 0x12, 0x40, 0x03, 0xF0, 0x57, 0x02]"
    by code_simp
  then have "\<not> length_invariant 9 xor_checksum8 sum_checksum16 10 1 3 9 0x1234 0 2 0 3 0xF0 []"
    by (simp add: length_invariant_def packed_total_length_def le16_def)
  moreover have "encode_command_packet xor_checksum8 sum_checksum16 10 1 3 9 0x1234 0 2 0 3 0xF0
      (replicate 1011 0) = Inl BufferOverrun"
    by (rule encode_overrun) simp
  moreover have "get_whole_length (built_header xor_checksum8 10 1 3 9 0x1234 0 2 0 3 0xF0 1011) = 0"
    by (simp add: built_whole_length)
  ultimately show ?thesis
    by (simp add: length_invariant_def)
qed

text \<open>
  Claim C4 (amended): for every payload of at most 1010 bytes the builder returns a packet
  whose packed version/length word holds, in its low 10 bits, the total length
  11 (header size) + len(p) + 2 (footer size), and the returned buffer has exactly that
  many bytes.
\<close>

theorem total_length_invariant:
  assumes "length payload \<le> 1010"
  shows "\<exists>buf. encode_command_packet c8 c16 st si rt ri sn pt at et cs ci payload = Inr buf
       \<and> sizeof DJICmdV1Header_fields = 11
       \<and> packed_total_length buf = int (sizeof DJICmdV1Header_fields) + int (length payload) + 2
       \<and> int (length buf) = packed_total_length buf"
proof -
  let ?h = "built_header c8 st si rt ri sn pt at et cs ci (length payload)"
  let ?buf = "DJICmdV1Header_bytes ?h @ payload
         @ le16_bytes (c16 (DJICmdV1Header_bytes ?h @ payload @ [0, 0]) (11 + int (length payload)))"
  have e: "encode_command_packet c8 c16 st si rt ri sn pt at et cs ci payload = Inr ?buf"
    by (rule encode_fits [OF assms])
  have "packed_total_length ?buf = (13 + int (length payload)) mod 1024"
    by (simp only: packed_total_length_def le16_header_bytes built_ver_length_tag
        low_bits_of_packed_word)
  also have "\<dots> = 13 + int (length payload)"
    using assms by simp
  finally have p: "packed_total_length ?buf = 13 + int (length payload)" .
  have l: "int (length ?buf) = 13 + int (length payload)"
    by (simp add: length_DJICmdV1Header_bytes length_le16_bytes)
  from e p l show ?thesis
    by (simp add: sizeof_DJICmdV1Header)
qed

theorem total_length_invariant_witness:
  "length [1, 2 :: c_ubyte] \<le> 1010
   \<and> encode_command_packet xor_checksum8 sum_checksum16 10 1 3 9 0x1234 0 2 0 3 0xF0 [1, 2]
     = Inr example_packet
   \<and> packed_total_length
        example_packet = 15"
proof -
  have l: "length [1, 2 :: c_ubyte] \<le> 1010" by simp
  from total_length_invariant [OF l, of xor_checksum8 sum_checksum16 10 1 3 9 "0x1234" 0 2 0 3 "0xF0"]
    example_build
  show ?thesis by (auto simp add: sizeof_DJICmdV1Header)
qed

text \<open>
  Claim C7. In every packet the builder returns, the last two bytes hold, little-endian, the
  16-bit checksum computed over all the bytes before them, the header and the payload. The
  builder passes the checksum function the whole buffer, its last two bytes still zero, and
  the length without them; for a checksum function that reads only the bytes within the
  length it is given, this is the checksum of the preceding bytes alone.
\<close>

theorem footer_checksum_of_preceding_bytes:
  assumes "encode_command_packet c8 c16 st si rt ri sn pt at et cs ci payload = Inr buf"
  shows "2 \<le> length buf
       \<and> take (length buf - 2) buf = take 11 buf @ payload
       \<and> drop (length buf - 2) buf
            = le16_bytes (c16 (take (length buf - 2) buf @ [0, 0]) (int (length buf) - 2))
       \<and> (reads_prefix_only c16 \<longrightarrow>
            drop (length buf - 2) buf
              = le16_bytes (c16 (take (length buf - 2) buf) (int (length buf) - 2)))"
proof -
  let ?h = "built_header c8 st si rt ri sn pt at et cs ci (length payload)"
  let ?body = "DJICmdV1Header_bytes ?h @ payload"
  let ?foot = "le16_bytes (c16 (?body @ [0, 0]) (11 + int (length payload)))"
  have buf: "buf = ?body @ ?foot"
    using encode_Inr_shape [OF assms] by simp
  have lb: "length ?body = 11 + length payload"
    by (simp add: length_DJICmdV1Header_bytes)
  have len: "length buf = length ?body + 2"
    by (simp add: buf length_le16_bytes)
  have tk: "take (length buf - 2) buf = ?body"
    by (simp add: buf length_le16_bytes)
  have dr: "drop (length buf - 2) buf = ?foot"
    by (simp add: buf length_le16_bytes)
  have t11: "take 11 buf = DJICmdV1Header_bytes ?h"
    by (simp add: buf length_DJICmdV1Header_bytes)
  have n: "int (length buf) - 2 = 11 + int (length payload)"
    by (simp add: buf length_le16_bytes length_DJICmdV1Header_bytes)
  have a: "drop (length buf - 2) buf
      = le16_bytes (c16 (take (length buf - 2) buf @ [0, 0]) (int (length buf) - 2))"
    by (simp only: dr tk n)
  have b: "drop (length buf - 2) buf
      = le16_bytes (c16 (take (length buf - 2) buf) (int (length buf) - 2))"
    if r: "reads_prefix_only c16"
  proof -
    have "take (nat (11 + int (length payload))) (?body @ [0, 0])
        = take (nat (11 + int (length payload))) ?body"
      by (simp add: length_DJICmdV1Header_bytes)
    with r have "c16 (?body @ [0, 0]) (11 + int (length payload))
        = c16 ?body (11 + int (length payload))"
      unfolding reads_prefix_only_def by blast
    then show ?thesis by (simp only: dr tk n)
  qed
  have c1: "2 \<le> length buf"
    by (simp add: buf length_le16_bytes)
  have c2: "take (length buf - 2) buf = take 11 buf @ payload"
    by (simp only: tk t11)
  from c1 c2 a b show ?thesis by blast
qed

theorem footer_checksum_of_preceding_bytes_witness:
  "encode_command_packet xor_checksum8 sum_checksum16 10 1 3 9 0x1234 0 2 0 3 0xF0 [1, 2]
     = Inr example_packet
   \<and> reads_prefix_only sum_checksum16
   \<and> drop (length example_packet - 2)
        example_packet
     = le16_bytes (sum_checksum16
         (take (length example_packet - 2)
            example_packet)
         (int (length example_packet) - 2))"
  using footer_checksum_of_preceding_bytes [OF example_build] example_build
    sum_checksum16_reads_prefix_only
  by blast

text \<open>
  Claim C8. For every k from 0 to 7 and otherwise identical inputs, the builder called with
  sender index k and with sender index k + 8 gives the same result: the index is masked to
  3 bits before it is packed.
\<close>

theorem sender_index_truncation:
  assumes "0 \<le> k" and "k \<le> 7"
  shows "encode_command_packet c8 c16 st (k + 8) rt ri sn pt at et cs ci payload
       = encode_command_packet c8 c16 st k rt ri sn pt at et cs ci payload"
  by (simp only: encode_command_packet_def sender_index_plus_8)

theorem sender_index_truncation_witness:
  "(0::int) \<le> 1 \<and> (1::int) \<le> 7
   \<and> encode_command_packet xor_checksum8 sum_checksum16 10 (1 + 8) 3 9 0x1234 0 2 0 3 0xF0 [1, 2]
     = Inr example_packet"
proof -
  have a: "(0::int) \<le> 1" and b: "(1::int) \<le> 7" by simp_all
  from sender_index_truncation [OF a b, of xor_checksum8 sum_checksum16 10 3 9 "0x1234" 0 2 0 3
      "0xF0" "[1, 2]"] example_build
  show ?thesis by simp
qed

text \<open>
  Claim C9. Every packet the builder returns carries protocol version 1 in the high 6 bits
  of the packed version/length word: the constructor sets the version to 1 and no later
  step changes it, so bytes 1 and 2 of the buffer encode version 1 together with the
  length, and the header read back from the buffer has version 1.
\<close>

theorem built_packet_has_version_one:
  assumes "encode_command_packet c8 c16 st si rt ri sn pt at et cs ci payload = Inr buf"
  shows "drop_bit 10 (le16 buf 1) = 1
       \<and> uint (take_bit 10 (le16 buf 1)) = int (length buf)
       \<and> [buf ! 1, buf ! 2] = le16_bytes (le16 buf 1)
       \<and> (\<exists>h. DJICmdV1Header_from_buffer_copy buf = Inr h \<and> get_version h = 1)"
proof -
  let ?h = "built_header c8 st si rt ri sn pt at et cs ci (length payload)"
  let ?w = "word_of_int (1024 OR ((13 + int (length payload)) AND 1023)) :: 16 word"
  from encode_Inr_shape [OF assms] obtain rest
    where buf: "buf = DJICmdV1Header_bytes ?h @ rest" and rest: "length rest = length payload + 2"
    by (simp add: length_le16_bytes)
  have len: "length payload \<le> 1010"
    by (rule encode_Inr_length [OF assms])
  have w: "le16 buf 1 = ?w"
    by (simp only: buf le16_header_bytes built_ver_length_tag)
  have hi: "drop_bit 10 (le16 buf 1) = 1"
    by (simp only: w high_bits_of_packed_word)
  have "uint (take_bit 10 (le16 buf 1)) = take_bit 10 (uint ?w)"
    unfolding w by (rule unsigned_take_bit_eq)
  also have "\<dots> = uint ?w AND 1023"
    by (simp only: take_bit_eq_mask mask_1023)
  also have "\<dots> = (13 + int (length payload)) mod 1024"
    by (rule low_bits_of_packed_word)
  also have "\<dots> = int (length buf)"
    using len by (simp add: buf rest length_DJICmdV1Header_bytes)
  finally have lo: "uint (take_bit 10 (le16 buf 1)) = int (length buf)" .
  have by12: "[buf ! 1, buf ! 2] = le16_bytes (le16 buf 1)"
    unfolding w
    by (simp add: buf nth_append length_DJICmdV1Header_bytes)
       (simp add: DJICmdV1Header_bytes_def le16_bytes_def built_ver_length_tag)
  have dec: "DJICmdV1Header_from_buffer_copy buf = Inr ?h"
    by (simp only: buf from_buffer_copy_bytes)
  have ver: "get_version ?h = 1"
    by (simp only: get_version_def built_ver_length_tag version_bits_of_packed_word)
  from hi lo by12 dec ver show ?thesis by blast
qed

theorem built_packet_has_version_one_witness:
  "encode_command_packet xor_checksum8 sum_checksum16 10 1 3 9 0x1234 0 2 0 3 0xF0 [1, 2]
     = Inr example_packet
   \<and> drop_bit 10 (le16 example_packet 1) = 1"
  using built_packet_has_version_one [OF example_build] example_build
  by blast

end
